theory Spec2Isabelle
  imports Main
begin

section \<open>The create-cluster command (package cmd)\<close>

subsection \<open>Data\<close>

text \<open>
  A Go \<open>error\<close> value. \<open>nil\<close> is \<open>None\<close> of \<open>error option\<close>. \<open>ErrNotExist\<close> is
  \<open>os.ErrNotExist\<close>; every other error is opaque to the code and carries its message.
\<close>

datatype error = ErrNotExist | Err string

text \<open>
  Modelled from the spec: the declaration of \<open>api.NetworkOutputs\<close> is not among the
  sources. Its fields are the four the command reads, the stack name, the VPC id and two
  private subnet ids of section 3 of the specification. The zero value
  \<open>api.NetworkOutputs{}\<close> has every field empty.
\<close>

record NetworkOutputs =
  StackName :: string
  VpcId :: string
  Subnet2Private :: string
  Subnet3Private :: string

definition NetworkOutputs_zero :: NetworkOutputs where
  "NetworkOutputs_zero =
     \<lparr>StackName = [], VpcId = [], Subnet2Private = [], Subnet3Private = []\<rparr>"

text \<open>
  Modelled from the spec: the declaration of \<open>api.CreateStackContext\<close> is not among the
  sources. Its fields are the two the command sets, a Go \<open>map[string]string\<close> and the
  rollback flag, as in section 3 of the specification.
\<close>

record CreateStackContext =
  Params :: "string \<rightharpoonup> string"
  DisableRollback :: bool

text \<open>
  Modelled from the spec: \<open>templates.NetworkStack()\<close> and \<open>templates.EcsStack()\<close> are not
  among the sources. By section 6 of the specification they give the template bodies of
  the network and the cluster stack, which the command forwards unread: each is an
  opaque token here.
\<close>

datatype template = NetworkStack | EcsStack

text \<open>The variables the flags of \<open>create-cluster\<close> are parsed into.\<close>

record flags =
  cluster :: string
  keyName :: string
  instanceType :: string
  dockerUsername :: string
  dockerPassword :: string
  dockerEmail :: string
  authorizedKeys :: string
  datadogKey :: string
  logspoutTarget :: string
  instanceCount :: int
  disableRollback :: bool

text \<open>
  \<open>api.Services\<close> and the functions of package \<open>api\<close> the command calls, which are
  not among the sources: they are parameters of the command here. They act on the
  remote backend, whose state is the type \<open>'w\<close>: each takes the state and returns its
  answer with the new state, and each is taken to return. \<open>api.PollUntilCreated\<close> is
  given an observer that only prints each event; printing and the wall-clock timer have
  no part in the control flow and are left out.
\<close>

record 'w Services =
  ECS_CreateCluster :: "string \<Rightarrow> 'w \<Rightarrow> error option \<times> 'w"
  api_FindNetworkStack :: "string \<Rightarrow> 'w \<Rightarrow> (NetworkOutputs \<times> error option) \<times> 'w"
  api_CreateStack :: "string \<Rightarrow> template \<Rightarrow> CreateStackContext \<Rightarrow> 'w \<Rightarrow> error option \<times> 'w"
  api_PollUntilCreated :: "string \<Rightarrow> 'w \<Rightarrow> error option \<times> 'w"

text \<open>
  The calls a run makes, in order, each with its arguments and what it returned. A run
  carries the backend state and this record of calls.
\<close>

datatype call =
    CreateCluster_call string "error option"
  | FindNetworkStack_call string NetworkOutputs "error option"
  | CreateStack_call string template CreateStackContext "error option"
  | PollUntilCreated_call string "error option"

type_synonym 'w run = "'w \<times> call list"

definition do_CreateCluster ::
  "'w Services \<Rightarrow> string \<Rightarrow> 'w run \<Rightarrow> error option \<times> 'w run" where
  "do_CreateCluster svc name s =
     (let (err, w') = ECS_CreateCluster svc name (fst s)
      in (err, (w', snd s @ [CreateCluster_call name err])))"

definition do_FindNetworkStack ::
  "'w Services \<Rightarrow> string \<Rightarrow> 'w run \<Rightarrow> (NetworkOutputs \<times> error option) \<times> 'w run" where
  "do_FindNetworkStack svc name s =
     (let ((outputs, err), w') = api_FindNetworkStack svc name (fst s)
      in ((outputs, err), (w', snd s @ [FindNetworkStack_call name outputs err])))"

definition do_CreateStack ::
  "'w Services \<Rightarrow> string \<Rightarrow> template \<Rightarrow> CreateStackContext \<Rightarrow> 'w run
     \<Rightarrow> error option \<times> 'w run" where
  "do_CreateStack svc name t ctx s =
     (let (err, w') = api_CreateStack svc name t ctx (fst s)
      in (err, (w', snd s @ [CreateStack_call name t ctx err])))"

definition do_PollUntilCreated ::
  "'w Services \<Rightarrow> string \<Rightarrow> 'w run \<Rightarrow> error option \<times> 'w run" where
  "do_PollUntilCreated svc name s =
     (let (err, w') = api_PollUntilCreated svc name (fst s)
      in (err, (w', snd s @ [PollUntilCreated_call name err])))"

subsection \<open>Formatting\<close>

text \<open>
  \<open>fmt.Sprintf\<close> for the one verb the command uses, \<open>%s\<close> with a string operand: the
  operand is copied as it is, and not scanned again. A \<open>%s\<close> with no operand left prints
  \<open>%!s(MISSING)\<close>, and \<open>%%\<close> prints a percent sign. No other verb occurs in the
  command; the text of such a verb is copied here.
\<close>

fun Sprintf :: "string \<Rightarrow> string list \<Rightarrow> string" where
  "Sprintf [] args = []"
| "Sprintf [c] args = [c]"
| "Sprintf (c # d # fmt) args =
     (if c = CHR ''%'' \<and> d = CHR ''s''
      then (case args of
              [] \<Rightarrow> ''%!s(MISSING)'' @ Sprintf fmt []
            | a # as \<Rightarrow> a @ Sprintf fmt as)
      else if c = CHR ''%'' \<and> d = CHR ''%'' then CHR ''%'' # Sprintf fmt args
      else c # Sprintf (d # fmt) args)"

definition clusterStackName :: "string \<Rightarrow> string" where
  "clusterStackName c = Sprintf ''ecs-%s-cluster'' [c]"

text \<open>
  \<open>strconv.Itoa\<close>: the decimal digits of an integer, with a minus sign below zero. A Go
  \<open>int\<close> is an \<open>int\<close> here: the command does no arithmetic on the count.
\<close>

fun decimal :: "nat \<Rightarrow> string" where
  "decimal n =
     (if n < 10 then [''0123456789'' ! n]
      else decimal (n div 10) @ [''0123456789'' ! (n mod 10)])"

declare decimal.simps [simp del]

definition Itoa :: "int \<Rightarrow> string" where
  "Itoa i = (if i < 0 then CHR ''-'' # decimal (nat (- i)) else decimal (nat i))"

subsection \<open>The workflow\<close>

definition getOrCreateNetworkStack ::
  "string \<Rightarrow> bool \<Rightarrow> 'w Services \<Rightarrow> 'w run \<Rightarrow> (NetworkOutputs \<times> error option) \<times> 'w run" where
  "getOrCreateNetworkStack clusterName disableRollbck svc s0 =
     (let ((outputs, err), s1) = do_FindNetworkStack svc clusterName s0 in
      if err = None then ((outputs, None), s1)
      else
        let ctx = \<lparr>Params = Map.empty, DisableRollback = disableRollbck\<rparr>;
            (err, s2) = do_CreateStack svc (StackName outputs) NetworkStack ctx s1 in
        if err \<noteq> None then ((NetworkOutputs_zero, err), s2)
        else
          let (err, s3) = do_PollUntilCreated svc (StackName outputs) s2 in
          if err \<noteq> None then ((NetworkOutputs_zero, err), s3)
          else
            let ((outputs, err), s4) = do_FindNetworkStack svc clusterName s3 in
            if err \<noteq> None then ((NetworkOutputs_zero, err), s4)
            else ((outputs, None), s4))"

text \<open>The parameter map of the cluster stack, as the map literal of the action writes it.\<close>

definition clusterParams :: "flags \<Rightarrow> NetworkOutputs \<Rightarrow> (string \<rightharpoonup> string)" where
  "clusterParams fl network =
     [''VpcId'' \<mapsto> VpcId network,
      ''VpcPrivateSubnet1Id'' \<mapsto> Subnet2Private network,
      ''VpcPrivateSubnet2Id'' \<mapsto> Subnet3Private network,
      ''KeyName'' \<mapsto> keyName fl,
      ''ECSCluster'' \<mapsto> cluster fl,
      ''InstanceType'' \<mapsto> instanceType fl,
      ''DesiredCapacity'' \<mapsto> Itoa (instanceCount fl),
      ''DockerHubUsername'' \<mapsto> dockerUsername fl,
      ''DockerHubPassword'' \<mapsto> dockerPassword fl,
      ''DockerHubEmail'' \<mapsto> dockerEmail fl,
      ''LogspoutTarget'' \<mapsto> logspoutTarget fl,
      ''DatadogApiKey'' \<mapsto> datadogKey fl,
      ''AuthorizedUsersUrl'' \<mapsto> authorizedKeys fl]"

text \<open>
  The function given to \<open>cmd.Action\<close> in \<open>ConfigureCreateCluster\<close>. The error of
  \<open>svc.ECS.CreateCluster\<close> is assigned and never read: the next assignment replaces it.
\<close>

definition ConfigureCreateCluster_action ::
  "flags \<Rightarrow> 'w Services \<Rightarrow> 'w run \<Rightarrow> error option \<times> 'w run" where
  "ConfigureCreateCluster_action fl svc s0 =
     (let (err, s1) = do_CreateCluster svc (cluster fl) s0;
          ((network, err), s2) = getOrCreateNetworkStack (cluster fl) (disableRollback fl) svc s1 in
      if err \<noteq> None then (err, s2)
      else
        let stackName = clusterStackName (cluster fl);
            ctx = \<lparr>Params = clusterParams fl network, DisableRollback = disableRollback fl\<rparr>;
            (err, s3) = do_CreateStack svc stackName EcsStack ctx s2 in
        if err \<noteq> None then (err, s3)
        else
          let (err, s4) = do_PollUntilCreated svc stackName s3 in
          if err \<noteq> None then (err, s4)
          else (None, s4))"

text \<open>A run of the command from a backend state: its result and the calls it made.\<close>

definition create_cluster :: "flags \<Rightarrow> 'w Services \<Rightarrow> 'w \<Rightarrow> error option \<times> call list" where
  "create_cluster fl svc w =
     (let (err, s) = ConfigureCreateCluster_action fl svc (w, []) in (err, snd s))"

text \<open>Which calls create the network stack, and which the cluster stack.\<close>

fun is_network_create :: "call \<Rightarrow> bool" where
  "is_network_create (CreateStack_call n t ctx r) = (t = NetworkStack)"
| "is_network_create _ = False"

fun is_cluster_create :: "call \<Rightarrow> bool" where
  "is_cluster_create (CreateStack_call n t ctx r) = (t = EcsStack)"
| "is_cluster_create _ = False"

text \<open>Further readings of a recorded call.\<close>

fun is_create :: "call \<Rightarrow> bool" where
  "is_create (CreateStack_call n t ctx r) = True"
| "is_create _ = False"

fun is_find :: "call \<Rightarrow> bool" where
  "is_find (FindNetworkStack_call n outs r) = True"
| "is_find _ = False"

fun find_ok :: "call \<Rightarrow> bool" where
  "find_ok (FindNetworkStack_call n outs r) = (r = None)"
| "find_ok _ = False"

fun find_failed :: "call \<Rightarrow> bool" where
  "find_failed (FindNetworkStack_call n outs r) = (r \<noteq> None)"
| "find_failed _ = False"

fun step_failed :: "call \<Rightarrow> bool" where
  "step_failed (CreateStack_call n t ctx r) = (r \<noteq> None)"
| "step_failed (PollUntilCreated_call n r) = (r \<noteq> None)"
| "step_failed _ = False"

text \<open>The calls of a run up to its first creation call for the cluster stack.\<close>

definition before_cluster_create :: "call list \<Rightarrow> call list" where
  "before_cluster_create tr = takeWhile (\<lambda>c. \<not> is_cluster_create c) tr"

subsection \<open>A sample backend\<close>

text \<open>
  A small backend to run the command on: its state lists the stacks with their status,
  newest entry first. The resolver looks for \<open>network-stack-<cluster>\<close> and answers with
  outputs when that stack is \<open>CREATE_COMPLETE\<close>, with an error naming the state when it
  is in any other state, and with another error when there is none; on an error the
  outputs still carry the stack name. A creation is refused when the name is taken.
  Polling ends with the stack complete.
\<close>

definition demo_svc :: "(string \<times> string) list Services" where
  "demo_svc =
     \<lparr>ECS_CreateCluster = (\<lambda>name w. (None, w)),
      api_FindNetworkStack = (\<lambda>name w.
        (case map_of w (''network-stack-'' @ name) of
           None \<Rightarrow> ((NetworkOutputs_zero\<lparr>StackName := ''network-stack-'' @ name\<rparr>,
                      Some (Err ''stack does not exist'')), w)
         | Some st \<Rightarrow>
             if st = ''CREATE_COMPLETE''
             then ((\<lparr>StackName = ''network-stack-'' @ name, VpcId = ''vpc-1'',
                     Subnet2Private = ''subnet-a'', Subnet3Private = ''subnet-b''\<rparr>, None), w)
             else ((NetworkOutputs_zero\<lparr>StackName := ''network-stack-'' @ name\<rparr>,
                    Some (Err (''stack is in state '' @ st))), w))),
      api_CreateStack = (\<lambda>name t ctx w.
        if map_of w name \<noteq> None then (Some (Err ''AlreadyExistsException''), w)
        else (None, (name, ''CREATE_IN_PROGRESS'') # w)),
      api_PollUntilCreated = (\<lambda>name w. (None, (name, ''CREATE_COMPLETE'') # w))\<rparr>"

text \<open>The same backend, but every stack it polls ends in \<open>CREATE_FAILED\<close>.\<close>

definition poll_failing_svc :: "(string \<times> string) list Services" where
  "poll_failing_svc =
     demo_svc\<lparr>api_PollUntilCreated :=
       (\<lambda>name w. (Some (Err ''stack reached CREATE_FAILED''), (name, ''CREATE_FAILED'') # w))\<rparr>"

text \<open>The flags of \<open>create-cluster --cluster demo\<close>, the others at their defaults.\<close>

definition demo_flags :: flags where
  "demo_flags =
     \<lparr>cluster = ''demo'', keyName = ''default'', instanceType = ''t2.micro'',
      dockerUsername = [], dockerPassword = [], dockerEmail = [], authorizedKeys = [],
      datadogKey = [], logspoutTarget = [], instanceCount = 3, disableRollback = False\<rparr>"

section \<open>The embedded templates (package templates)\<close>

subsection \<open>Data\<close>

text \<open>
  \<open>_escFile\<close>. \<open>once\<close> is the \<open>sync.Once\<close> of the file: whether its function has run.
  A byte slice is a \<open>string\<close>, \<open>nil\<close> the empty one. The field \<open>size\<close> is \<open>fsize\<close> here.
\<close>

record escFile =
  compressed :: string
  fsize :: int
  modtime :: int
  local :: string
  isDir :: bool
  data :: string
  once :: bool
  name :: string

text \<open>
  What the package takes from the Go library. \<open>path.Clean\<close> and \<open>path.Base\<close> are
  functions on strings. \<open>decode\<close> is the reader chain of \<open>prepare\<close> on a payload:
  \<open>gzip.NewReader\<close> over the base64 decoder either fails, or gives a reader from
  which \<open>ioutil.ReadAll\<close> returns the bytes read and maybe an error. \<open>os_Open\<close> opens
  a path of the local file system: it fails, or gives a file of which \<open>ioutil.ReadAll\<close>
  returns bytes and maybe an error.
\<close>

datatype decoded = NewReaderFailed error | ReadAll string "error option"

record golib =
  path_Clean :: "string \<Rightarrow> string"
  path_Base :: "string \<Rightarrow> string"
  decode :: "string \<Rightarrow> decoded"
  os_Open :: "string \<Rightarrow> error + string \<times> error option"

text \<open>
  The map \<open>_escData\<close> from names to files. Its values are pointers, one file each, and
  \<open>prepare\<close> writes to the file it finds: the map is the state of the package.
\<close>

type_synonym escData = "string \<rightharpoonup> escFile"

text \<open>A file as a composite literal of \<open>_escData\<close> gives it: the other fields are zero.\<close>

definition escFile_zero :: escFile where
  "escFile_zero =
     \<lparr>compressed = [], fsize = 0, modtime = 0, local = [], isDir = False, data = [],
      once = False, name = []\<rparr>"

text \<open>The payloads, as the raw string literals have them, line breaks included.\<close>

definition ecs_service_json_compressed :: string where
  "ecs_service_json_compressed =
     ''\<newline>''
     @ ''H4sIAAAJbogA/+xZTW/bOBO++1cIOhZp46Z9X+zq5jpJ60U2a8ROeljkwNB0RFQivSTVIl3kv++QlmR+\<newline>''
     @ ''SXJSdw+LoC1qk8P5nofD8d+jJEknnxdLUm4KpMg5FyVSN0RIylmaJenJ+O349fhX+Jseado5EqgkCghg\<newline>''
     @ ''V5+GtSWSX85RSYuHdk2vPmyI5rBQgrJ7c9qsnxKJBd2oWsAyJ8naHE4YcE74OlGwpIBnQllSSZKak49H\<newline>''
     @ ''O2GnZE0ZrTk8RyBdEabomhLRyDubLhKXdaJ4KB3IpkUlwf6DSq55RkVOOVOIMiIuwT3PlIobHloCUgrh\<newline>''
     @ ''XH/S4iURXynukjnnQsVkXlblHfigT+YGjibajb58viHMPrlGVaGF/DJ2XX3x4UDSC45WyR0qEMNP02C6\<newline>''
     @ ''WBBcCaoePgpebWKqQO1k2dn0JMsc0iybrTr1m4DTt7TJvSZO1lxsU+HiA/yPVJIjmSCMiZRNmOwsmTGp\<newline>''
     @ ''tC3SDdrNBvdreDOf9uql/QY0rTqNRcnWekfYorpjRMmYwCkvS3RKClpSRVYXVKpOiTUXbSQWBPCndQNl\<newline>''
     @ ''rrxPBBUqn+YEf7kWxTPL4PrqQovKqUq+5YQlKw4nktywxpq1TNaCl40SsRRJjz0/LC6mROiKxqA+OPfp\<newline>''
     @ ''mk2YhwqIJcA2wTu+NTDYiRJVrtZtVOun63hlwMxC62tJPim10XEhzMWxcwaZ8leFCk3+Z72atPuG5oqs\<newline>''
     @ ''jU2+3S3N41H7MW1Wbx2f1RrILhUuueqW36GjT7efrp6+js47vRufWpa0Hv6jUpvKqgMINsJf6si3Vt2g\<newline>''
     @ ''ojKpQLB8DUEsicgy/TmKvlDrFwBZH2rEijHamWocMlt7zgh9bFvpOspw+A1KIXCo9saRt+JTAE2uBWXH\<newline>''
     @ ''xwFtGJJW3keiJkpFJNY0n5bLueuFkLkhPL1cmIsxsnsbrD2GTNJsX7XrbGrupZD5qE+8/e3xJwfjJ8Ti\<newline>''
     @ ''3wnF+/fv/NM9Xhz5q4979GqRCmoCu6Pv4reoy3Vffgu7vH1+8ba5m59F7/JrweiKSF4J3Ri0cATZ+twe\<newline>''
     @ ''ZnfDzAV0TACgRLqKGTL/Sg9bm+19rq9WpvT9Bo6xUkj3Lc69aduse5rozeJoOmP3AnolL4O9wpptwAzF\<newline>''
     @ ''MdfdQ6rwxkvj9Byufq/jDEIaq33/AlnyQ3CZ0pWY6XCl4zfmz/E43RNCnmIpVFyX+uHWkE4DBRngSGcu\<newline>''
     @ ''Fkgqine00D5lWRSCdi2OPu33NoMZHLaxdqCa3eEMHMi9XeDdCtszoDagdB3f+d7SsXHEgHq2Zw+Ru80D\<newline>''
     @ ''ZYCX+8rs5WgntE6jYdOtB4Mf3SUS9yRU7IevXq3YU7uJHh8Y257GzXslHapFqfk+LHOA2ZwXGq1PHIJr\<newline>''
     @ ''lockb8cOzYzB1foV6Ri+c3eWtCS80hH5X7TUwEmMYF3kpwKcBWgw5wXFD35gzxi6K8jKoJ6AW7RDyP/H\<newline>''
     @ ''I98hIVB1tuAHRaqwP3+Bqv8yVPV4LmJZeAP/fHUXfrPQM+HwxQ48tF8wO8btBbMPgtnx15n3xFnoJ86W\<newline>''
     @ ''aBBvw7ejWe58LLrmw6uICrKa8opp9d/aSGcV+gDadc3+fW1cut567xrtd7IchhDboC5Fo1Oqeq93VhXz\<newline>''
     @ ''i6tpeFv/cEn6D5UnFuUw0l3xwndTODYwRNHs6vwRzGbkEe1dP55ubg3NJr9nmaEYLKCJlFVpuG0r/5Rj\<newline>''
     @ ''+M78pNMTU0XqjYGB7tl6DZhilCkK/i1IFNCFQg+2QUUkB00j1CBEbNSlp7NvUIm+c4a+yTeYl2Hg/UFW\<newline>''
     @ ''kFnpBNcxiWS6VDLbuaV/1GUn0W00C+ZI5an5ScJe1L7exqIHWLYRqYs1tSfRfnvQFzpD0R2+UG59ZCiM\<newline>''
     @ ''hqjHj2afbFtv/ePeXdt6b4dRd+RV14yy45Qg9xp8RPvTmh6R7DPzjPK78rl9pirfixs+2cMEIJpUKueC\<newline>''
     @ ''fifROVjk3G3Ux83AUIfi1YFQzkWXkf73OPonAAD//47tE9FoIAAA\<newline>''"

definition ecs_stack_json_compressed :: string where
  "ecs_stack_json_compressed =
     ''\<newline>''
     @ ''H4sIAAAJbogA/wEAAP//AAAAAAAAAAA=\<newline>''"

definition network_stack_json_compressed :: string where
  "network_stack_json_compressed =
     ''\<newline>''
     @ ''H4sIAAAJbogA/9SX0W+bPhDH3/NXID/n9yvQtdJ4y9olYpO2KEGZ1GkPDrlmqAQj22yKJv732SQktgMx\<newline>''
     @ ''UZO1VVtR7Psed5+zD/On5zho8G0awSpPMYchoSvMZ0BZQjIUOMh3Pfc/9734RX1p+7XgecGZmJJSMTDL\<newline>''
     @ ''492NvMVpAcqAGJrAo/QkDbeDZXUt+xsP02KegeKy2cswC4JPJJFBfd+NivE+6iu36pSjyPVQNk90kTZd\<newline>''
     @ ''9k/Qes/Q+oZWufvRM/8zUEFc0ISvR5QUeTfsukT32tt6FraMFDSG9rpG61z6l2slCD7e+UEwG9/t0KMx\<newline>''
     @ ''JTlQngDTg7hLFvRDSuInqfXc/6ufK+9WKRoKM8ZxFkMEmbispeUCHnGRctUqwktm1F7HjD5Dpf2CV4D0\<newline>''
     @ ''ejTg0SFVWU05jp8qdWt9Skt9RmIL/cbr4+DCjAMV66A2Pg6x8QEDLmL9uYKMW2t0qLAWzQgwXBjkamp1\<newline>''
     @ ''ArspZRvI9dMqVFrBnmlTU3CPp7cxsic0+IWTFM+TVOyDB5KZK6HqLVNIIebGCnMc17KzpXQEfPDAGpaX\<newline>''
     @ ''scAmsJRd1TAqO3QDFezhlvLElvLfoXPD914cvvcG4PuXge+/OHz/DcC/Pjf8CSm4xrCBfWUT4XkKdv7n\<newline>''
     @ ''COd++zK0B2WP5x4YTzLMRTU0mvWb2VVZPqv/7ym16rewu70JulRmY7p/8oAxEidVtnY0G3FrsAdnxgsm\<newline>''
     @ ''672OZL1/kqz/OpL1L51s29G9IVnN1JpeZSY2dkyTnG8/28TB70r4cmpXju7rpM6kiLTIwmxJgVkO5WEu\<newline>''
     @ ''wuYkJql0zOPcPJoPKVmNCZXtzTdeOSgibTOyeYW53rkUC9s5vSWPrjWpFd1K077wmj7NdODH8KnoXPVL\<newline>''
     @ ''qaZ2e3NzfaNWr/rG0zM5NTYdZ0/+lb2/AQAA//8njafhRhAAAA==\<newline>''"

text \<open>The map as the package initialises it.\<close>

definition escData_init :: escData where
  "escData_init =
     [''/templates/build/ecs-service.json'' \<mapsto>
        escFile_zero\<lparr>local := ''templates/build/ecs-service.json'',
          fsize := 8296,
          modtime := 1477520712,
          compressed := ecs_service_json_compressed\<rparr>,
      ''/templates/build/ecs-stack.json'' \<mapsto>
        escFile_zero\<lparr>local := ''templates/build/ecs-stack.json'',
          fsize := 0,
          modtime := 1479087109,
          compressed := ecs_stack_json_compressed\<rparr>,
      ''/templates/build/network-stack.json'' \<mapsto>
        escFile_zero\<lparr>local := ''templates/build/network-stack.json'',
          fsize := 4166,
          modtime := 1477520116,
          compressed := network_stack_json_compressed\<rparr>,
      ''/'' \<mapsto>
        escFile_zero\<lparr>local := ''/'',
          isDir := True\<rparr>,
      ''/templates'' \<mapsto>
        escFile_zero\<lparr>local := ''/templates'',
          isDir := True\<rparr>,
      ''/templates/build'' \<mapsto>
        escFile_zero\<lparr>local := ''/templates/build'',
          isDir := True\<rparr>]"

subsection \<open>Reading a file\<close>

text \<open>\<open>_escLocalFS.Open\<close>: the file of the local file system behind a name.\<close>

definition escLocalFS_Open :: "golib \<Rightarrow> string \<Rightarrow> escData \<Rightarrow> error + string \<times> error option" where
  "escLocalFS_Open lib nm fs =
     (case fs (path_Clean lib nm) of
        None \<Rightarrow> Inl ErrNotExist
      | Some f \<Rightarrow> os_Open lib (local f))"

text \<open>
  The function \<open>prepare\<close> hands to \<open>f.once.Do\<close>: it sets the name, and for a file of
  size other than zero reads the payload into \<open>data\<close>. It leaves its error in the
  variable \<open>err\<close> of \<open>prepare\<close>.
\<close>

definition prepare_once :: "golib \<Rightarrow> string \<Rightarrow> escFile \<Rightarrow> escFile \<times> error option" where
  "prepare_once lib nm f =
     (let f1 = f\<lparr>name := path_Base lib nm\<rparr> in
      if fsize f1 = 0 then (f1, None)
      else (case decode lib (compressed f1) of
              NewReaderFailed e \<Rightarrow> (f1, Some e)
            | ReadAll d e \<Rightarrow> (f1\<lparr>data := d\<rparr>, e)))"

text \<open>
  \<open>_escStaticFS.prepare\<close>. \<open>once.Do\<close> runs the function on the first call for a file
  only; on a later call \<open>err\<close> stays \<open>nil\<close>. The result is \<open>(nil, err)\<close> or \<open>(f, nil)\<close>,
  with the new state of the map.
\<close>

definition prepare :: "golib \<Rightarrow> string \<Rightarrow> escData \<Rightarrow> (error + escFile) \<times> escData" where
  "prepare lib nm fs =
     (case fs (path_Clean lib nm) of
        None \<Rightarrow> (Inl ErrNotExist, fs)
      | Some f \<Rightarrow>
          let (f', err) =
                (if once f then (f, None)
                 else let (g, e) = prepare_once lib nm f in (g\<lparr>once := True\<rparr>, e));
              fs' = fs(path_Clean lib nm \<mapsto> f')
          in (case err of Some e \<Rightarrow> (Inl e, fs') | None \<Rightarrow> (Inr f', fs')))"

text \<open>\<open>FSByte\<close>: the bytes and the error it returns, with the new state of the map.\<close>

definition FSByte :: "golib \<Rightarrow> bool \<Rightarrow> string \<Rightarrow> escData \<Rightarrow> (string \<times> error option) \<times> escData" where
  "FSByte lib useLocal nm fs =
     (if useLocal then
        (case escLocalFS_Open lib nm fs of
           Inl e \<Rightarrow> (([], Some e), fs)
         | Inr r \<Rightarrow> (r, fs))
      else
        (case prepare lib nm fs of
           (Inl e, fs') \<Rightarrow> (([], Some e), fs')
         | (Inr f, fs') \<Rightarrow> ((data f, None), fs')))"

text \<open>\<open>FSMustByte\<close>: \<open>Inl e\<close> is \<open>panic(e)\<close>, \<open>Inr b\<close> the bytes returned.\<close>

definition FSMustByte :: "golib \<Rightarrow> bool \<Rightarrow> string \<Rightarrow> escData \<Rightarrow> (error + string) \<times> escData" where
  "FSMustByte lib useLocal nm fs =
     (let ((b, err), fs') = FSByte lib useLocal nm fs in
      case err of Some e \<Rightarrow> (Inl e, fs') | None \<Rightarrow> (Inr b, fs'))"

text \<open>
  The bytes embedded for a file, when they can be read: none for a file of size zero,
  else what the decoder gives for the payload without an error.
\<close>

definition embedded_bytes :: "golib \<Rightarrow> escFile \<Rightarrow> string option" where
  "embedded_bytes lib f =
     (if fsize f = 0 then Some []
      else (case decode lib (compressed f) of
              ReadAll d None \<Rightarrow> Some d
            | _ \<Rightarrow> None))"

text \<open>
  A state of the map in which every file that has been prepared holds its embedded
  bytes, and every other file holds none, as in the initial state.
\<close>

definition consistent :: "golib \<Rightarrow> escData \<Rightarrow> bool" where
  "consistent lib fs =
     (\<forall>k f. fs k = Some f \<longrightarrow>
        (if once f \<and> fsize f \<noteq> 0 then embedded_bytes lib f = Some (data f)
         else data f = []))"

subsection \<open>A sample library\<close>

text \<open>
  A library to run the package on. Its \<open>path.Clean\<close> and \<open>path.Base\<close> are right for
  the names used with it: clean paths, and a path with one leading slash and no other.
  Its decoder knows two payloads: the empty gzip stream embedded for
  \<open>ecs-stack.json\<close>, and the payload of the sample file below.
\<close>

definition sample_lib :: golib where
  "sample_lib =
     \<lparr>path_Clean = (\<lambda>p. p),
      path_Base = (\<lambda>p. if p \<noteq> [] \<and> hd p = CHR ''/'' then tl p else p),
      decode = (\<lambda>s. if s = ecs_stack_json_compressed then ReadAll [] None
                     else if s = ''sample-payload'' then ReadAll ''{}'' None
                     else NewReaderFailed (Err ''gzip: invalid header'')),
      os_Open = (\<lambda>p. Inl ErrNotExist)\<rparr>"

definition sample_escData :: escData where
  "sample_escData =
     [''/sample.json'' \<mapsto>
        escFile_zero\<lparr>local := ''sample.json'', fsize := 2, compressed := ''sample-payload''\<rparr>]"

section \<open>The stack poller (package api)\<close>

text \<open>
  Modelled from the spec: \<open>api.PollUntilCreated\<close> and the types it works on are not
  among the sources, only its two calls in the command are. The definitions of this
  section follow section 4.3 of the specification, with the data of its section 3.
\<close>

text \<open>Modelled from the spec: the states of a stack.\<close>

datatype StackStatus =
    CREATE_IN_PROGRESS | CREATE_COMPLETE | CREATE_FAILED
  | ROLLBACK_IN_PROGRESS | ROLLBACK_COMPLETE | ROLLBACK_FAILED

text \<open>Modelled from the spec: the states marked terminal.\<close>

fun is_terminal :: "StackStatus \<Rightarrow> bool" where
  "is_terminal CREATE_IN_PROGRESS = False"
| "is_terminal ROLLBACK_IN_PROGRESS = False"
| "is_terminal _ = True"

text \<open>Modelled from the spec: the one terminal state that is a success.\<close>

fun is_success :: "StackStatus \<Rightarrow> bool" where
  "is_success CREATE_COMPLETE = True"
| "is_success _ = False"

text \<open>Modelled from the spec: a stack event; the timestamp counts time units.\<close>

record StackEvent =
  timestamp :: nat
  logicalResourceId :: string
  resourceStatus :: string
  resourceStatusReason :: string

text \<open>
  Modelled from the spec: what one poll obtains, the current status with the event
  list, or a query error.
\<close>

datatype PollResponse = QueryFailed error | Answer StackStatus "StackEvent list"

text \<open>
  Modelled from the spec: the error of the poller, a query error that outlasted its
  retries, or a failure terminal state with the reason where there is one.
\<close>

datatype poll_error = QueryFailure error | ProvisioningFailure StackStatus "string option"

text \<open>
  Modelled from the spec: the events of a batch newer than the high-water mark, the
  timestamp of the last event delivered (\<open>None\<close> before the first delivery), as a set,
  sorted oldest first; events of one timestamp stay in the order the backend sent them.
\<close>

definition newer_than :: "nat option \<Rightarrow> StackEvent \<Rightarrow> bool" where
  "newer_than mark e = (case mark of None \<Rightarrow> True | Some t \<Rightarrow> t < timestamp e)"

text \<open>Modelled from the spec: the new events of one poll, in the order of delivery.\<close>

definition new_events :: "nat option \<Rightarrow> StackEvent list \<Rightarrow> StackEvent list" where
  "new_events mark batch = sort_key timestamp (remdups (filter (newer_than mark) batch))"

text \<open>
  Modelled from the spec: delivering events one by one to the observer, whose calls
  are recorded in order, advancing the mark after each.
\<close>

fun deliver :: "nat option \<times> StackEvent list \<Rightarrow> StackEvent list \<Rightarrow> nat option \<times> StackEvent list" where
  "deliver (mark, seen) [] = (mark, seen)"
| "deliver (mark, seen) (e # es) = deliver (Some (timestamp e), seen @ [e]) es"

text \<open>
  Modelled from the spec: how the poller ends on the responses given, returned with or
  without an error, or still polling when the responses have run out.
\<close>

datatype poll_outcome = Returned "poll_error option" | StillPolling

text \<open>
  Modelled from the spec: the polling loop over the responses the backend will give.
  A query error is retried while retries are left, and leaves the mark as it is; an
  answer restores the retries. The loop returns on a terminal status, after delivering
  the new events of that poll. The result holds the outcome, the events delivered and
  the responses not asked for. Which reason goes with a failure is left to the
  parameter \<open>reason\<close>; the waiting between polls has no part in the result.
\<close>

fun poll ::
  "nat \<Rightarrow> (StackEvent list \<Rightarrow> string option) \<Rightarrow> nat \<Rightarrow> nat option \<Rightarrow> StackEvent list
     \<Rightarrow> PollResponse list \<Rightarrow> poll_outcome \<times> StackEvent list \<times> PollResponse list" where
  "poll retries reason k mark seen [] = (StillPolling, seen, [])"
| "poll retries reason k mark seen (QueryFailed e # rs) =
     (if k = 0 then (Returned (Some (QueryFailure e)), seen, rs)
      else poll retries reason (k - 1) mark seen rs)"
| "poll retries reason k mark seen (Answer st evs # rs) =
     (let (mark', seen') = deliver (mark, seen) (new_events mark evs) in
      if is_success st then (Returned None, seen', rs)
      else if is_terminal st then (Returned (Some (ProvisioningFailure st (reason seen'))), seen', rs)
      else poll retries reason retries mark' seen' rs)"

text \<open>Modelled from the spec: the poller, starting with no event delivered.\<close>

definition PollUntilCreated ::
  "nat \<Rightarrow> (StackEvent list \<Rightarrow> string option) \<Rightarrow> PollResponse list
     \<Rightarrow> poll_outcome \<times> StackEvent list \<times> PollResponse list" where
  "PollUntilCreated retries reason responses = poll retries reason retries None [] responses"

text \<open>
  Modelled from the spec: a response that leaves the poller polling, an answer with a
  status that is not terminal.
\<close>

fun in_progress :: "PollResponse \<Rightarrow> bool" where
  "in_progress (Answer st evs) = (\<not> is_terminal st)"
| "in_progress (QueryFailed e) = False"

text \<open>
  Modelled from the spec: the state of the polling loop is in order when the events
  delivered are distinct and oldest first, and none of them is newer than the mark.
\<close>

definition in_order :: "nat option \<Rightarrow> StackEvent list \<Rightarrow> bool" where
  "in_order mark seen =
     (distinct seen \<and> sorted (map timestamp seen) \<and> (\<forall>e \<in> set seen. \<not> newer_than mark e))"

subsection \<open>Sample responses\<close>

text \<open>
  Three events of a stack, and a way to pick the reason of a failure: that of the last
  event delivered that has one.
\<close>

definition vpc_started :: StackEvent where
  "vpc_started =
     \<lparr>timestamp = 1, logicalResourceId = ''Vpc'', resourceStatus = ''CREATE_IN_PROGRESS'',
      resourceStatusReason = []\<rparr>"

definition vpc_created :: StackEvent where
  "vpc_created =
     \<lparr>timestamp = 2, logicalResourceId = ''Vpc'', resourceStatus = ''CREATE_COMPLETE'',
      resourceStatusReason = []\<rparr>"

definition subnet_failed :: StackEvent where
  "subnet_failed =
     \<lparr>timestamp = 3, logicalResourceId = ''Subnet2'', resourceStatus = ''CREATE_FAILED'',
      resourceStatusReason = ''CIDR conflict''\<rparr>"

definition last_reason :: "StackEvent list \<Rightarrow> string option" where
  "last_reason seen =
     (case filter (\<lambda>e. resourceStatusReason e \<noteq> []) seen of
        [] \<Rightarrow> None
      | e # es \<Rightarrow> Some (resourceStatusReason (last (e # es))))"

section \<open>Properties of the create-cluster command\<close>

lemmas workflow_defs =
  create_cluster_def ConfigureCreateCluster_action_def getOrCreateNetworkStack_def
  do_CreateCluster_def do_FindNetworkStack_def do_CreateStack_def do_PollUntilCreated_def

lemmas demo_defs =
  demo_svc_def poll_failing_svc_def demo_flags_def NetworkOutputs_zero_def clusterStackName_def

subsection \<open>Runs on the sample backend\<close>

lemma demo_flags_simps:
  "cluster demo_flags = ''demo''" "disableRollback demo_flags = False"
  by (simp_all add: demo_flags_def)

lemma demo_run_fresh:
  "create_cluster demo_flags demo_svc [] =
     (None,
      [CreateCluster_call ''demo'' None,
       FindNetworkStack_call ''demo''
         \<lparr>StackName = ''network-stack-demo'', VpcId = [], Subnet2Private = [],
          Subnet3Private = []\<rparr> (Some (Err ''stack does not exist'')),
       CreateStack_call ''network-stack-demo'' NetworkStack
         \<lparr>Params = Map.empty, DisableRollback = False\<rparr> None,
       PollUntilCreated_call ''network-stack-demo'' None,
       FindNetworkStack_call ''demo''
         \<lparr>StackName = ''network-stack-demo'', VpcId = ''vpc-1'', Subnet2Private = ''subnet-a'',
          Subnet3Private = ''subnet-b''\<rparr> None,
       CreateStack_call ''ecs-demo-cluster'' EcsStack
         \<lparr>Params = clusterParams demo_flags
            \<lparr>StackName = ''network-stack-demo'', VpcId = ''vpc-1'', Subnet2Private = ''subnet-a'',
             Subnet3Private = ''subnet-b''\<rparr>,
          DisableRollback = False\<rparr> None,
       PollUntilCreated_call ''ecs-demo-cluster'' None])"
  by (simp add: workflow_defs demo_defs Let_def)

lemma demo_run_failed_stack:
  "create_cluster demo_flags demo_svc [(''network-stack-demo'', ''CREATE_FAILED'')] =
     (Some (Err ''AlreadyExistsException''),
      [CreateCluster_call ''demo'' None,
       FindNetworkStack_call ''demo''
         \<lparr>StackName = ''network-stack-demo'', VpcId = [], Subnet2Private = [],
          Subnet3Private = []\<rparr> (Some (Err ''stack is in state CREATE_FAILED'')),
       CreateStack_call ''network-stack-demo'' NetworkStack
         \<lparr>Params = Map.empty, DisableRollback = False\<rparr> (Some (Err ''AlreadyExistsException''))])"
  by (simp add: workflow_defs demo_defs Let_def)

lemma poll_failing_run:
  "create_cluster demo_flags poll_failing_svc [] =
     (Some (Err ''stack reached CREATE_FAILED''),
      [CreateCluster_call ''demo'' None,
       FindNetworkStack_call ''demo''
         \<lparr>StackName = ''network-stack-demo'', VpcId = [], Subnet2Private = [],
          Subnet3Private = []\<rparr> (Some (Err ''stack does not exist'')),
       CreateStack_call ''network-stack-demo'' NetworkStack
         \<lparr>Params = Map.empty, DisableRollback = False\<rparr> None,
       PollUntilCreated_call ''network-stack-demo'' (Some (Err ''stack reached CREATE_FAILED''))])"
  by (simp add: workflow_defs demo_defs Let_def)

lemma demo_getOrCreate_fresh:
  "getOrCreateNetworkStack ''demo'' False demo_svc ([], []) =
     ((\<lparr>StackName = ''network-stack-demo'', VpcId = ''vpc-1'', Subnet2Private = ''subnet-a'',
        Subnet3Private = ''subnet-b''\<rparr>, None),
      ([(''network-stack-demo'', ''CREATE_COMPLETE''),
        (''network-stack-demo'', ''CREATE_IN_PROGRESS'')],
       [FindNetworkStack_call ''demo''
          \<lparr>StackName = ''network-stack-demo'', VpcId = [], Subnet2Private = [],
           Subnet3Private = []\<rparr> (Some (Err ''stack does not exist'')),
        CreateStack_call ''network-stack-demo'' NetworkStack
          \<lparr>Params = Map.empty, DisableRollback = False\<rparr> None,
        PollUntilCreated_call ''network-stack-demo'' None,
        FindNetworkStack_call ''demo''
          \<lparr>StackName = ''network-stack-demo'', VpcId = ''vpc-1'', Subnet2Private = ''subnet-a'',
           Subnet3Private = ''subnet-b''\<rparr> None]))"
  by (simp add: workflow_defs demo_defs Let_def)

subsection \<open>The resolver's errors\<close>

text \<open>
  C1 (as the code has it). \<open>getOrCreateNetworkStack\<close> tests only whether the resolver
  returned an error, not which one. Whenever the first resolution of a run returns an
  error, of any kind, the run makes exactly one creation call for the network stack,
  as its third call, under the stack name the resolver returned, with an empty
  parameter map and the caller's rollback flag. If that creation is refused, its error
  is the result of the run and no further call is made. No call repairs or deletes a
  stack: the backend has no such operation in \<open>Services\<close>.
\<close>

theorem resolver_error_leads_to_network_create:
  assumes "create_cluster fl svc w = (res, tr)"
    and "tr ! 1 = FindNetworkStack_call n outs (Some e)"
  shows "\<exists>r. filter is_network_create tr =
           [CreateStack_call (StackName outs) NetworkStack
              \<lparr>Params = Map.empty, DisableRollback = disableRollback fl\<rparr> r]
         \<and> tr ! 2 = CreateStack_call (StackName outs) NetworkStack
              \<lparr>Params = Map.empty, DisableRollback = disableRollback fl\<rparr> r
         \<and> (r \<noteq> None \<longrightarrow> res = r \<and> length tr = 3)"
  using assms
  by (auto simp: workflow_defs Let_def split: prod.splits if_splits)

theorem resolver_error_leads_to_network_create_witness:
  "\<exists>r. filter is_network_create
         (snd (create_cluster demo_flags demo_svc [(''network-stack-demo'', ''CREATE_FAILED'')])) =
           [CreateStack_call ''network-stack-demo'' NetworkStack
              \<lparr>Params = Map.empty, DisableRollback = False\<rparr> r]
       \<and> r \<noteq> None
       \<and> fst (create_cluster demo_flags demo_svc [(''network-stack-demo'', ''CREATE_FAILED'')]) = r"
proof -
  let ?w = "[(''network-stack-demo'', ''CREATE_FAILED'')]"
  have run: "create_cluster demo_flags demo_svc ?w =
               (fst (create_cluster demo_flags demo_svc ?w),
                snd (create_cluster demo_flags demo_svc ?w))"
    by simp
  have first: "snd (create_cluster demo_flags demo_svc ?w) ! 1 =
                 FindNetworkStack_call ''demo''
                   \<lparr>StackName = ''network-stack-demo'', VpcId = [], Subnet2Private = [],
                    Subnet3Private = []\<rparr> (Some (Err ''stack is in state CREATE_FAILED''))"
    by (simp add: demo_run_failed_stack)
  from resolver_error_leads_to_network_create [OF run first]
  show ?thesis
    by (simp add: demo_run_failed_stack demo_flags_simps)
qed

text \<open>
  C1 as the specification states it fails. On the sample backend the network stack of
  cluster \<open>demo\<close> exists in state \<open>CREATE_FAILED\<close>: the resolver returns an error that is
  not "not found", and the run goes on to call the creation of the network stack. What
  the run returns is the backend's refusal of that creation, not the resolver's error.
\<close>

theorem incompatible_stack_is_created_again:
  "create_cluster demo_flags demo_svc [(''network-stack-demo'', ''CREATE_FAILED'')] =
     (Some (Err ''AlreadyExistsException''),
      [CreateCluster_call ''demo'' None,
       FindNetworkStack_call ''demo''
         \<lparr>StackName = ''network-stack-demo'', VpcId = [], Subnet2Private = [],
          Subnet3Private = []\<rparr> (Some (Err ''stack is in state CREATE_FAILED'')),
       CreateStack_call ''network-stack-demo'' NetworkStack
         \<lparr>Params = Map.empty, DisableRollback = False\<rparr> (Some (Err ''AlreadyExistsException''))])
   \<and> list_ex is_network_create
        (snd (create_cluster demo_flags demo_svc [(''network-stack-demo'', ''CREATE_FAILED'')]))"
  by (simp add: demo_run_failed_stack)

subsection \<open>The network stack comes first\<close>

text \<open>
  C2. In every run, a creation call for the cluster stack comes only directly after a
  resolution of the network stack that returned no error (the resolver answers so only
  for a stack in a success terminal state, with its outputs), and no creation or poll
  before it has failed. When a creation or poll of the network stack fails, as a poll
  does for a stack that ends in \<open>CREATE_FAILED\<close>, or when the last resolution fails,
  the run returns an error and contains no creation call for the cluster stack.
\<close>

theorem cluster_create_only_after_network_resolved:
  assumes "create_cluster fl svc w = (res, tr)"
  shows "(list_ex is_cluster_create tr \<longrightarrow>
            before_cluster_create tr \<noteq> []
          \<and> (\<exists>outs. last (before_cluster_create tr) =
                       FindNetworkStack_call (cluster fl) outs None)
          \<and> \<not> list_ex step_failed (before_cluster_create tr))
       \<and> (list_ex step_failed (before_cluster_create tr) \<or> find_failed (last tr) \<longrightarrow>
            res \<noteq> None \<and> \<not> list_ex is_cluster_create tr)"
  using assms
  by (auto simp: workflow_defs before_cluster_create_def Let_def split: prod.splits if_splits)

theorem cluster_create_only_after_network_resolved_witness:
  "list_ex step_failed (before_cluster_create (snd (create_cluster demo_flags poll_failing_svc [])))
   \<and> fst (create_cluster demo_flags poll_failing_svc []) \<noteq> None
   \<and> \<not> list_ex is_cluster_create (snd (create_cluster demo_flags poll_failing_svc []))
   \<and> list_ex is_cluster_create (snd (create_cluster demo_flags demo_svc []))
   \<and> last (before_cluster_create (snd (create_cluster demo_flags demo_svc []))) =
       FindNetworkStack_call ''demo''
         \<lparr>StackName = ''network-stack-demo'', VpcId = ''vpc-1'', Subnet2Private = ''subnet-a'',
          Subnet3Private = ''subnet-b''\<rparr> None"
proof -
  have bad: "create_cluster demo_flags poll_failing_svc [] =
               (fst (create_cluster demo_flags poll_failing_svc []),
                snd (create_cluster demo_flags poll_failing_svc []))"
    by simp
  have failed: "list_ex step_failed
                  (before_cluster_create (snd (create_cluster demo_flags poll_failing_svc [])))"
    by (simp add: poll_failing_run before_cluster_create_def)
  have good: "create_cluster demo_flags demo_svc [] =
                (fst (create_cluster demo_flags demo_svc []),
                 snd (create_cluster demo_flags demo_svc []))"
    by simp
  have made: "list_ex is_cluster_create (snd (create_cluster demo_flags demo_svc []))"
    by (simp add: demo_run_fresh)
  from cluster_create_only_after_network_resolved [OF bad] failed
       cluster_create_only_after_network_resolved [OF good] made
  show ?thesis
    by (simp add: demo_run_fresh before_cluster_create_def)
qed

subsection \<open>A fresh cluster\<close>

text \<open>
  C3. When the first resolution of a run answers with an error (no network stack
  exists), no creation or poll before the creation of the cluster stack fails and no
  later resolution fails, then the resolver is asked a second time and answers with
  outputs \<open>outs\<close>, and the creation calls of the run are exactly two: one for the
  network stack, without error, then one for the cluster stack, whose parameter map
  holds the VPC id and the two private subnet ids of \<open>outs\<close> unchanged.
\<close>

theorem fresh_cluster_creates_network_then_cluster:
  assumes "create_cluster fl svc w = (res, tr)"
    and "tr ! 1 = FindNetworkStack_call n0 outs0 (Some e)"
    and "\<not> list_ex step_failed (before_cluster_create tr)"
    and "\<not> list_ex find_failed (drop 2 tr)"
  shows "\<exists>outs ctx r.
           filter is_find tr =
             [FindNetworkStack_call (cluster fl) outs0 (Some e),
              FindNetworkStack_call (cluster fl) outs None]
         \<and> filter is_create tr =
             [CreateStack_call (StackName outs0) NetworkStack
                \<lparr>Params = Map.empty, DisableRollback = disableRollback fl\<rparr> None,
              CreateStack_call (clusterStackName (cluster fl)) EcsStack ctx r]
         \<and> Params ctx ''VpcId'' = Some (VpcId outs)
         \<and> Params ctx ''VpcPrivateSubnet1Id'' = Some (Subnet2Private outs)
         \<and> Params ctx ''VpcPrivateSubnet2Id'' = Some (Subnet3Private outs)"
  using assms
  by (auto simp: workflow_defs before_cluster_create_def clusterParams_def Let_def
           split: prod.splits if_splits)

theorem fresh_cluster_creates_network_then_cluster_witness:
  "\<exists>ctx r. filter is_create (snd (create_cluster demo_flags demo_svc [])) =
            [CreateStack_call ''network-stack-demo'' NetworkStack
               \<lparr>Params = Map.empty, DisableRollback = False\<rparr> None,
             CreateStack_call ''ecs-demo-cluster'' EcsStack ctx r]
         \<and> Params ctx ''VpcId'' = Some ''vpc-1''
         \<and> Params ctx ''VpcPrivateSubnet1Id'' = Some ''subnet-a''
         \<and> Params ctx ''VpcPrivateSubnet2Id'' = Some ''subnet-b''"
proof -
  let ?tr = "snd (create_cluster demo_flags demo_svc [])"
  have run: "create_cluster demo_flags demo_svc [] =
               (fst (create_cluster demo_flags demo_svc []), ?tr)"
    by simp
  have first: "?tr ! 1 =
                 FindNetworkStack_call ''demo''
                   \<lparr>StackName = ''network-stack-demo'', VpcId = [], Subnet2Private = [],
                    Subnet3Private = []\<rparr> (Some (Err ''stack does not exist''))"
    by (simp add: demo_run_fresh)
  have steps: "\<not> list_ex step_failed (before_cluster_create ?tr)"
    by (simp add: demo_run_fresh before_cluster_create_def)
  have finds: "\<not> list_ex find_failed (drop 2 ?tr)"
    by (simp add: demo_run_fresh)
  from fresh_cluster_creates_network_then_cluster [OF run first steps finds]
  obtain outs ctx r where
    f: "filter is_find ?tr =
          [FindNetworkStack_call (cluster demo_flags)
             \<lparr>StackName = ''network-stack-demo'', VpcId = [], Subnet2Private = [],
              Subnet3Private = []\<rparr> (Some (Err ''stack does not exist'')),
           FindNetworkStack_call (cluster demo_flags) outs None]"
    and c: "filter is_create ?tr =
          [CreateStack_call ''network-stack-demo'' NetworkStack
             \<lparr>Params = Map.empty, DisableRollback = disableRollback demo_flags\<rparr> None,
           CreateStack_call (clusterStackName (cluster demo_flags)) EcsStack ctx r]"
    and p: "Params ctx ''VpcId'' = Some (VpcId outs)"
           "Params ctx ''VpcPrivateSubnet1Id'' = Some (Subnet2Private outs)"
           "Params ctx ''VpcPrivateSubnet2Id'' = Some (Subnet3Private outs)"
    by auto
  from f have "outs = \<lparr>StackName = ''network-stack-demo'', VpcId = ''vpc-1'',
                        Subnet2Private = ''subnet-a'', Subnet3Private = ''subnet-b''\<rparr>"
    by (simp add: demo_run_fresh demo_flags_simps)
  with c p show ?thesis
    by (simp add: demo_flags_simps clusterStackName_def)
qed

subsection \<open>The name of the cluster stack\<close>

text \<open>
  C4. The cluster stack of cluster \<open>c\<close> is named \<open>ecs-\<close>, \<open>c\<close>, \<open>-cluster\<close>; for
  \<open>demo\<close> that is \<open>ecs-demo-cluster\<close>. A run in which the network stack was resolved
  makes its one creation call for the cluster stack under that name; any other run
  makes none.
\<close>

theorem cluster_stack_is_created_under_its_name:
  assumes "create_cluster fl svc w = (res, tr)"
  shows "clusterStackName c = ''ecs-'' @ c @ ''-cluster''
       \<and> clusterStackName ''demo'' = ''ecs-demo-cluster''
       \<and> (if list_ex find_ok tr
          then \<exists>ctx r. filter is_cluster_create tr =
                 [CreateStack_call (''ecs-'' @ cluster fl @ ''-cluster'') EcsStack ctx r]
          else filter is_cluster_create tr = [])"
  using assms
  by (auto simp: workflow_defs clusterStackName_def Let_def split: prod.splits if_splits)

theorem cluster_stack_is_created_under_its_name_witness:
  "\<exists>ctx r. filter is_cluster_create (snd (create_cluster demo_flags demo_svc [])) =
            [CreateStack_call ''ecs-demo-cluster'' EcsStack ctx r]"
proof -
  have run: "create_cluster demo_flags demo_svc [] =
               (fst (create_cluster demo_flags demo_svc []),
                snd (create_cluster demo_flags demo_svc []))"
    by simp
  have found: "list_ex find_ok (snd (create_cluster demo_flags demo_svc []))"
    by (simp add: demo_run_fresh)
  from cluster_stack_is_created_under_its_name [OF run, of "''demo''"] found
  show ?thesis
    by (simp add: demo_flags_simps)
qed

subsection \<open>Creating the network stack\<close>

text \<open>
  C5. When the first resolution in \<open>getOrCreateNetworkStack\<close> returns an error, the
  next call creates the network stack under the name the resolver returned, with an
  empty parameter map and the caller's rollback flag. If the creation fails, the
  function makes no further call and returns its error. If it succeeds, the third call
  polls that stack; if the poll fails, the function makes no further call and returns
  its error. If the poll succeeds, the fourth and last call resolves the network stack
  again, and the function returns the error of that resolution, or without an error
  its outputs, not those of the first resolution. With an error the function returns
  the zero outputs.
\<close>

theorem absent_network_stack_is_created_polled_and_resolved_again:
  assumes "getOrCreateNetworkStack c dr svc (w, []) = ((outs, res), (w', tr))"
    and "hd tr = FindNetworkStack_call n0 outs0 (Some e)"
  shows "\<exists>r1. take 2 tr =
             [FindNetworkStack_call c outs0 (Some e),
              CreateStack_call (StackName outs0) NetworkStack
                \<lparr>Params = Map.empty, DisableRollback = dr\<rparr> r1]
         \<and> (if r1 \<noteq> None then length tr = 2 \<and> res = r1 \<and> outs = NetworkOutputs_zero
            else \<exists>r2. take 3 tr = take 2 tr @ [PollUntilCreated_call (StackName outs0) r2]
              \<and> (if r2 \<noteq> None then length tr = 3 \<and> res = r2 \<and> outs = NetworkOutputs_zero
                 else \<exists>outs' r3. tr = take 3 tr @ [FindNetworkStack_call c outs' r3]
                   \<and> res = r3
                   \<and> (if r3 \<noteq> None then outs = NetworkOutputs_zero else outs = outs')))"
  using assms
  by (auto simp: workflow_defs Let_def split: prod.splits if_splits) blast+

theorem absent_network_stack_is_created_polled_and_resolved_again_witness:
  "snd (snd (getOrCreateNetworkStack ''demo'' False demo_svc ([], []))) =
     [FindNetworkStack_call ''demo''
        \<lparr>StackName = ''network-stack-demo'', VpcId = [], Subnet2Private = [],
         Subnet3Private = []\<rparr> (Some (Err ''stack does not exist'')),
      CreateStack_call ''network-stack-demo'' NetworkStack
        \<lparr>Params = Map.empty, DisableRollback = False\<rparr> None,
      PollUntilCreated_call ''network-stack-demo'' None,
      FindNetworkStack_call ''demo''
        (fst (fst (getOrCreateNetworkStack ''demo'' False demo_svc ([], [])))) None]
   \<and> fst (fst (getOrCreateNetworkStack ''demo'' False demo_svc ([], []))) =
       \<lparr>StackName = ''network-stack-demo'', VpcId = ''vpc-1'', Subnet2Private = ''subnet-a'',
        Subnet3Private = ''subnet-b''\<rparr>"
proof -
  let ?run = "getOrCreateNetworkStack ''demo'' False demo_svc ([], [])"
  have run: "?run = ((fst (fst ?run), snd (fst ?run)), (fst (snd ?run), snd (snd ?run)))"
    by simp
  have first: "hd (snd (snd ?run)) =
                 FindNetworkStack_call ''demo''
                   \<lparr>StackName = ''network-stack-demo'', VpcId = [], Subnet2Private = [],
                    Subnet3Private = []\<rparr> (Some (Err ''stack does not exist''))"
    by (simp add: demo_getOrCreate_fresh)
  from absent_network_stack_is_created_polled_and_resolved_again [OF run first]
  show ?thesis
    by (simp add: demo_getOrCreate_fresh)
qed

subsection \<open>The error of CreateCluster\<close>

text \<open>
  C8. Whatever error \<open>svc.ECS.CreateCluster\<close> returns, the run goes on: its second call
  is the resolution of the network stack, and a run in which the call returned \<open>e\<close>
  has the same result and, after that first call, the same calls as the run in which it
  returned \<open>e'\<close> with the same effect on the backend.
\<close>

theorem CreateCluster_error_is_discarded:
  assumes "create_cluster fl (svc\<lparr>ECS_CreateCluster := \<lambda>n w. (e, g n w)\<rparr>) w = (res, tr)"
    and "create_cluster fl (svc\<lparr>ECS_CreateCluster := \<lambda>n w. (e', g n w)\<rparr>) w = (res', tr')"
  shows "res = res' \<and> tl tr = tl tr'
       \<and> hd tr = CreateCluster_call (cluster fl) e \<and> is_find (tr ! 1)"
  using assms
  by (auto simp: workflow_defs Let_def split_beta split: if_splits)

theorem CreateCluster_error_is_discarded_witness:
  "fst (create_cluster demo_flags
          (demo_svc\<lparr>ECS_CreateCluster := \<lambda>n w. (Some (Err ''cluster limit exceeded''), w)\<rparr>) [])
     = fst (create_cluster demo_flags demo_svc [])
   \<and> tl (snd (create_cluster demo_flags
          (demo_svc\<lparr>ECS_CreateCluster := \<lambda>n w. (Some (Err ''cluster limit exceeded''), w)\<rparr>) []))
     = tl (snd (create_cluster demo_flags demo_svc []))
   \<and> hd (snd (create_cluster demo_flags
          (demo_svc\<lparr>ECS_CreateCluster := \<lambda>n w. (Some (Err ''cluster limit exceeded''), w)\<rparr>) []))
     = CreateCluster_call ''demo'' (Some (Err ''cluster limit exceeded''))"
proof -
  let ?failing = "demo_svc\<lparr>ECS_CreateCluster := \<lambda>n w. (Some (Err ''cluster limit exceeded''), w)\<rparr>"
  let ?passing = "demo_svc\<lparr>ECS_CreateCluster := \<lambda>n w. (None, w)\<rparr>"
  have same: "?passing = demo_svc"
    by (simp add: demo_svc_def)
  have one: "create_cluster demo_flags ?failing [] =
               (fst (create_cluster demo_flags ?failing []),
                snd (create_cluster demo_flags ?failing []))"
    by simp
  have two: "create_cluster demo_flags ?passing [] =
               (fst (create_cluster demo_flags demo_svc []),
                snd (create_cluster demo_flags demo_svc []))"
    by (simp add: same)
  from CreateCluster_error_is_discarded [OF one two]
  show ?thesis
    by (simp add: demo_flags_simps)
qed

subsection \<open>The subnets of the cluster stack\<close>

text \<open>
  C9. In the parameter map of the cluster stack, \<open>VpcPrivateSubnet1Id\<close> is the field
  \<open>Subnet2Private\<close> and \<open>VpcPrivateSubnet2Id\<close> the field \<open>Subnet3Private\<close> of the network
  outputs. The creation call for the cluster stack, which a run makes once when the
  network stack was resolved and not at all otherwise, carries this map, built from the
  outputs of the resolution just before it.
\<close>

theorem cluster_subnets_are_second_and_third:
  assumes "create_cluster fl svc w = (res, tr)"
  shows "clusterParams fl network ''VpcPrivateSubnet1Id'' = Some (Subnet2Private network)
       \<and> clusterParams fl network ''VpcPrivateSubnet2Id'' = Some (Subnet3Private network)
       \<and> (if list_ex find_ok tr
          then \<exists>outs r.
                 last (before_cluster_create tr) = FindNetworkStack_call (cluster fl) outs None
               \<and> filter is_cluster_create tr =
                   [CreateStack_call (clusterStackName (cluster fl)) EcsStack
                      \<lparr>Params = clusterParams fl outs,
                       DisableRollback = disableRollback fl\<rparr> r]
          else filter is_cluster_create tr = [])"
proof (intro conjI)
  show "clusterParams fl network ''VpcPrivateSubnet1Id'' = Some (Subnet2Private network)"
    by (simp add: clusterParams_def)
  show "clusterParams fl network ''VpcPrivateSubnet2Id'' = Some (Subnet3Private network)"
    by (simp add: clusterParams_def)
  show "if list_ex find_ok tr
        then \<exists>outs r.
               last (before_cluster_create tr) = FindNetworkStack_call (cluster fl) outs None
             \<and> filter is_cluster_create tr =
                 [CreateStack_call (clusterStackName (cluster fl)) EcsStack
                    \<lparr>Params = clusterParams fl outs,
                     DisableRollback = disableRollback fl\<rparr> r]
        else filter is_cluster_create tr = []"
    using assms
    by (auto simp: workflow_defs before_cluster_create_def Let_def split: prod.splits if_splits)
qed

theorem cluster_subnets_are_second_and_third_witness:
  "\<exists>ctx r. filter is_cluster_create (snd (create_cluster demo_flags demo_svc [])) =
             [CreateStack_call ''ecs-demo-cluster'' EcsStack ctx r]
         \<and> Params ctx ''VpcPrivateSubnet1Id'' = Some ''subnet-a''
         \<and> Params ctx ''VpcPrivateSubnet2Id'' = Some ''subnet-b''"
proof -
  let ?outs = "\<lparr>StackName = ''network-stack-demo'', VpcId = ''vpc-1'',
                Subnet2Private = ''subnet-a'', Subnet3Private = ''subnet-b''\<rparr>"
  have run: "create_cluster demo_flags demo_svc [] =
               (fst (create_cluster demo_flags demo_svc []),
                snd (create_cluster demo_flags demo_svc []))"
    by simp
  from cluster_subnets_are_second_and_third [OF run, of ?outs]
  have "clusterParams demo_flags ?outs ''VpcPrivateSubnet1Id'' = Some ''subnet-a''"
    and "clusterParams demo_flags ?outs ''VpcPrivateSubnet2Id'' = Some ''subnet-b''"
    by simp_all
  then show ?thesis
    by (simp add: demo_run_fresh)
qed

section \<open>Properties of the embedded templates\<close>

lemmas templates_defs = FSMustByte_def FSByte_def prepare_def prepare_once_def

lemma escData_init_consistent: "consistent lib escData_init"
  by (simp add: consistent_def escData_init_def escFile_zero_def)

lemma escData_init_missing: "escData_init ''/templates/build/missing.json'' = None"
  by (simp add: escData_init_def)

lemma escData_init_ecs_stack:
  "escData_init ''/templates/build/ecs-stack.json'' =
     Some (escFile_zero\<lparr>local := ''templates/build/ecs-stack.json'', fsize := 0,
             modtime := 1479087109, compressed := ecs_stack_json_compressed\<rparr>)"
  by (simp add: escData_init_def)

lemma consistentD:
  "consistent lib fs \<Longrightarrow> fs k = Some f \<Longrightarrow>
     (if once f \<and> fsize f \<noteq> 0 then embedded_bytes lib f = Some (data f) else data f = [])"
  by (simp add: consistent_def)

lemma consistent_update:
  "consistent lib fs \<Longrightarrow>
     (if once g \<and> fsize g \<noteq> 0 then embedded_bytes lib g = Some (data g) else data g = []) \<Longrightarrow>
   consistent lib (fs(k \<mapsto> g))"
  by (simp add: consistent_def)

lemma prepare_present:
  assumes "fs (path_Clean lib nm) = Some f"
    and "consistent lib fs"
    and "embedded_bytes lib f = Some d"
  shows "\<exists>g. prepare lib nm fs = (Inr g, fs(path_Clean lib nm \<mapsto> g))
           \<and> data g = d \<and> once g \<and> fsize g = fsize f \<and> compressed g = compressed f"
proof (cases "once f")
  case True
  with consistentD [OF assms(2) assms(1)] assms(3)
  have "data f = d"
    by (auto simp: embedded_bytes_def split: if_splits)
  with True assms(1) show ?thesis
    by (simp add: prepare_def)
next
  case False
  with consistentD [OF assms(2) assms(1)] have "data f = []"
    by simp
  with False assms(1) assms(3) show ?thesis
    by (auto simp: prepare_def prepare_once_def embedded_bytes_def Let_def
             split: if_splits decoded.splits option.splits)
qed

lemma FSMustByte_present:
  assumes "fs (path_Clean lib nm) = Some f"
    and "consistent lib fs"
    and "embedded_bytes lib f = Some d"
  shows "fst (FSMustByte lib False nm fs) = Inr d"
    and "consistent lib (snd (FSMustByte lib False nm fs))"
proof -
  from prepare_present [OF assms] obtain g where
    p: "prepare lib nm fs = (Inr g, fs(path_Clean lib nm \<mapsto> g))"
    and g: "data g = d" "once g" "fsize g = fsize f" "compressed g = compressed f"
    by blast
  from p g show "fst (FSMustByte lib False nm fs) = Inr d"
    by (simp add: FSMustByte_def FSByte_def)
  from g assms(3) have "embedded_bytes lib g = Some (data g)"
    by (auto simp: embedded_bytes_def split: if_splits)
  with g have "if once g \<and> fsize g \<noteq> 0 then embedded_bytes lib g = Some (data g) else data g = []"
    by (auto simp: embedded_bytes_def split: if_splits)
  from consistent_update [OF assms(2) this] p
  show "consistent lib (snd (FSMustByte lib False nm fs))"
    by (simp add: FSMustByte_def FSByte_def)
qed

text \<open>
  C10. For a name whose cleaned form is not a key of the map, \<open>FSByte\<close> without
  \<open>useLocal\<close> returns no bytes and the error \<open>os.ErrNotExist\<close>, and \<open>FSMustByte\<close>
  panics with it; the map is left as it was. For a name whose cleaned form is a key, in
  a consistent state and when the payload of the file can be read, \<open>FSMustByte\<close> returns
  the embedded bytes of the file without a panic and leaves the state consistent. The
  initial state of the map is consistent.
\<close>

theorem FSMustByte_embedded:
  "(fs (path_Clean lib nm) = None \<longrightarrow>
      FSByte lib False nm fs = (([], Some ErrNotExist), fs)
    \<and> FSMustByte lib False nm fs = (Inl ErrNotExist, fs))
   \<and> (\<forall>f d. fs (path_Clean lib nm) = Some f \<and> consistent lib fs \<and> embedded_bytes lib f = Some d \<longrightarrow>
         fst (FSMustByte lib False nm fs) = Inr d
       \<and> consistent lib (snd (FSMustByte lib False nm fs)))
   \<and> consistent lib escData_init"
proof (intro conjI impI allI)
  assume "fs (path_Clean lib nm) = None"
  then show "FSByte lib False nm fs = (([], Some ErrNotExist), fs)"
    by (simp add: templates_defs)
next
  assume "fs (path_Clean lib nm) = None"
  then show "FSMustByte lib False nm fs = (Inl ErrNotExist, fs)"
    by (simp add: templates_defs)
next
  fix f d
  assume a: "fs (path_Clean lib nm) = Some f \<and> consistent lib fs \<and> embedded_bytes lib f = Some d"
  then show "fst (FSMustByte lib False nm fs) = Inr d"
    by (simp add: FSMustByte_present)
next
  fix f d
  assume a: "fs (path_Clean lib nm) = Some f \<and> consistent lib fs \<and> embedded_bytes lib f = Some d"
  then show "consistent lib (snd (FSMustByte lib False nm fs))"
    by (simp add: FSMustByte_present)
next
  show "consistent lib escData_init"
    by (rule escData_init_consistent)
qed

theorem FSMustByte_embedded_witness:
  "FSByte sample_lib False ''/templates/build/missing.json'' escData_init =
     (([], Some ErrNotExist), escData_init)
   \<and> FSMustByte sample_lib False ''/templates/build/missing.json'' escData_init =
     (Inl ErrNotExist, escData_init)
   \<and> fst (FSMustByte sample_lib False ''/templates/build/ecs-stack.json'' escData_init) = Inr []
   \<and> fst (FSMustByte sample_lib False ''/sample.json'' sample_escData) = Inr ''{}''"
proof -
  have clean: "path_Clean sample_lib = (\<lambda>p. p)"
    by (simp add: sample_lib_def)
  have missing: "escData_init (path_Clean sample_lib ''/templates/build/missing.json'') = None"
    by (simp add: clean escData_init_missing)
  have present:
    "escData_init (path_Clean sample_lib ''/templates/build/ecs-stack.json'') =
       Some (escFile_zero\<lparr>local := ''templates/build/ecs-stack.json'', fsize := 0,
               modtime := 1479087109, compressed := ecs_stack_json_compressed\<rparr>)
     \<and> consistent sample_lib escData_init
     \<and> embedded_bytes sample_lib
         (escFile_zero\<lparr>local := ''templates/build/ecs-stack.json'', fsize := 0,
            modtime := 1479087109, compressed := ecs_stack_json_compressed\<rparr>) = Some []"
    by (simp add: clean escData_init_ecs_stack escData_init_consistent embedded_bytes_def)
  have sample:
    "sample_escData (path_Clean sample_lib ''/sample.json'') =
       Some (escFile_zero\<lparr>local := ''sample.json'', fsize := 2, compressed := ''sample-payload''\<rparr>)
     \<and> consistent sample_lib sample_escData
     \<and> embedded_bytes sample_lib
         (escFile_zero\<lparr>local := ''sample.json'', fsize := 2, compressed := ''sample-payload''\<rparr>)
         = Some ''{}''"
    by (simp add: clean sample_escData_def consistent_def embedded_bytes_def escFile_zero_def
                  sample_lib_def ecs_stack_json_compressed_def)
  from FSMustByte_embedded [of escData_init sample_lib "''/templates/build/missing.json''"] missing
       FSMustByte_embedded [of escData_init sample_lib "''/templates/build/ecs-stack.json''"] present
       FSMustByte_embedded [of sample_escData sample_lib "''/sample.json''"] sample
  show ?thesis
    by blast
qed

section \<open>Properties of the stack poller\<close>

lemma is_success_terminal: "is_success st \<Longrightarrow> is_terminal st"
  by (cases st) simp_all

lemma is_success_iff: "is_success st \<longleftrightarrow> st = CREATE_COMPLETE"
  by (cases st) simp_all

lemma deliver_eq:
  "deliver (mark, seen) es = ((if es = [] then mark else Some (timestamp (last es))), seen @ es)"
  by (induction es arbitrary: mark seen) simp_all

subsection \<open>Termination at the terminal state\<close>

lemma poll_in_progress_prefix:
  "list_all in_progress pre \<Longrightarrow>
     \<exists>k' mark' seen'. \<forall>rs. poll retries reason k mark seen (pre @ rs)
                               = poll retries reason k' mark' seen' rs"
proof (induction pre arbitrary: k mark seen)
  case Nil
  show ?case by auto
next
  case (Cons r pre)
  from Cons.prems obtain st evs where r: "r = Answer st evs" and st: "\<not> is_terminal st"
    by (cases r) auto
  from st have ns: "\<not> is_success st"
    using is_success_terminal by blast
  obtain m s where d: "deliver (mark, seen) (new_events mark evs) = (m, s)"
    by (cases "deliver (mark, seen) (new_events mark evs)")
  from Cons.prems have "list_all in_progress pre"
    by simp
  from Cons.IH [OF this, of retries m s] obtain k' mark' seen' where
    "\<forall>rs. poll retries reason retries m s (pre @ rs) = poll retries reason k' mark' seen' rs"
    by blast
  with r st ns d show ?case
    by auto
qed

lemma poller_demo_run:
  "PollUntilCreated 2 last_reason
     [Answer CREATE_IN_PROGRESS [vpc_started],
      QueryFailed (Err ''timeout''),
      Answer CREATE_IN_PROGRESS [vpc_created, vpc_started],
      Answer CREATE_FAILED [subnet_failed, vpc_created, vpc_started],
      Answer CREATE_FAILED [subnet_failed, vpc_created, vpc_started]] =
   (Returned (Some (ProvisioningFailure CREATE_FAILED (Some ''CIDR conflict''))),
    [vpc_started, vpc_created, subnet_failed],
    [Answer CREATE_FAILED [subnet_failed, vpc_created, vpc_started]])"
  by (simp add: PollUntilCreated_def new_events_def newer_than_def last_reason_def
                vpc_started_def vpc_created_def subnet_failed_def)

text \<open>
  C6. Given responses that are answers with a status in progress, followed by an answer
  with a terminal status, the poller returns at that answer: it asks for none of the
  responses after it, and it is still polling when given only the responses before it.
  It returns without an error when the terminal status is \<open>CREATE_COMPLETE\<close>, and
  with an error carrying the status when it is any other terminal status.
\<close>

theorem PollUntilCreated_returns_at_terminal_state:
  assumes "list_all in_progress pre" and "is_terminal st"
  shows "\<exists>seen. PollUntilCreated retries reason (pre @ Answer st evs # rest) =
           ((if st = CREATE_COMPLETE then Returned None
             else Returned (Some (ProvisioningFailure st (reason seen)))), seen, rest)
       \<and> fst (PollUntilCreated retries reason pre) = StillPolling"
proof -
  from poll_in_progress_prefix [OF assms(1), of retries reason retries None "[]"]
  obtain k' mark' seen' where
    p: "\<And>rs. poll retries reason retries None [] (pre @ rs) = poll retries reason k' mark' seen' rs"
    by blast
  obtain m s where d: "deliver (mark', seen') (new_events mark' evs) = (m, s)"
    by (cases "deliver (mark', seen') (new_events mark' evs)")
  from p [of "Answer st evs # rest"] d assms(2)
  have "PollUntilCreated retries reason (pre @ Answer st evs # rest) =
          ((if st = CREATE_COMPLETE then Returned None
            else Returned (Some (ProvisioningFailure st (reason s)))), s, rest)"
    by (simp add: PollUntilCreated_def is_success_iff)
  moreover from p [of "[]"]
  have "fst (PollUntilCreated retries reason pre) = StillPolling"
    by (simp add: PollUntilCreated_def)
  ultimately show ?thesis
    by blast
qed

theorem PollUntilCreated_returns_at_terminal_state_witness:
  "PollUntilCreated 2 last_reason
     ([Answer CREATE_IN_PROGRESS [vpc_started],
       Answer CREATE_IN_PROGRESS [vpc_created, vpc_started]]
      @ Answer CREATE_FAILED [subnet_failed, vpc_created, vpc_started]
      # [Answer CREATE_COMPLETE []]) =
   (Returned (Some (ProvisioningFailure CREATE_FAILED (Some ''CIDR conflict''))),
    [vpc_started, vpc_created, subnet_failed],
    [Answer CREATE_COMPLETE []])
   \<and> fst (PollUntilCreated 2 last_reason
           [Answer CREATE_IN_PROGRESS [vpc_started],
            Answer CREATE_IN_PROGRESS [vpc_created, vpc_started]]) = StillPolling"
proof -
  have pre: "list_all in_progress
               [Answer CREATE_IN_PROGRESS [vpc_started],
                Answer CREATE_IN_PROGRESS [vpc_created, vpc_started]]"
    by simp
  have st: "is_terminal CREATE_FAILED"
    by simp
  from PollUntilCreated_returns_at_terminal_state
         [OF pre st, of 2 last_reason "[subnet_failed, vpc_created, vpc_started]"
            "[Answer CREATE_COMPLETE []]"]
  obtain seen where
    "PollUntilCreated 2 last_reason
       ([Answer CREATE_IN_PROGRESS [vpc_started],
         Answer CREATE_IN_PROGRESS [vpc_created, vpc_started]]
        @ Answer CREATE_FAILED [subnet_failed, vpc_created, vpc_started]
        # [Answer CREATE_COMPLETE []]) =
       (Returned (Some (ProvisioningFailure CREATE_FAILED (last_reason seen))), seen,
        [Answer CREATE_COMPLETE []])"
    and still: "fst (PollUntilCreated 2 last_reason
                   [Answer CREATE_IN_PROGRESS [vpc_started],
                    Answer CREATE_IN_PROGRESS [vpc_created, vpc_started]]) = StillPolling"
    by auto
  moreover
  have "fst (snd (PollUntilCreated 2 last_reason
          ([Answer CREATE_IN_PROGRESS [vpc_started],
            Answer CREATE_IN_PROGRESS [vpc_created, vpc_started]]
           @ Answer CREATE_FAILED [subnet_failed, vpc_created, vpc_started]
           # [Answer CREATE_COMPLETE []]))) = [vpc_started, vpc_created, subnet_failed]"
    by (simp add: PollUntilCreated_def new_events_def newer_than_def
                  vpc_started_def vpc_created_def subnet_failed_def)
  ultimately show ?thesis
    by (simp add: last_reason_def subnet_failed_def vpc_started_def vpc_created_def)
qed

subsection \<open>Delivery at most once and in order\<close>

lemma new_events_props:
  "distinct (new_events mark evs)"
  "sorted (map timestamp (new_events mark evs))"
  "set (new_events mark evs) = {e \<in> set evs. newer_than mark e}"
  by (simp_all add: new_events_def)

lemma in_order_deliver:
  assumes "in_order mark seen"
    and "deliver (mark, seen) (new_events mark evs) = (mark', seen')"
  shows "in_order mark' seen'"
proof -
  let ?new = "new_events mark evs"
  from assms(2) have seen': "seen' = seen @ ?new"
    and mark': "mark' = (if ?new = [] then mark else Some (timestamp (last ?new)))"
    by (simp_all add: deliver_eq)
  from assms(1) have old: "distinct seen" "sorted (map timestamp seen)"
    "\<forall>e \<in> set seen. \<not> newer_than mark e"
    by (simp_all add: in_order_def)
  have new: "\<forall>e \<in> set ?new. newer_than mark e"
    by (simp add: new_events_props)
  have cross: "\<forall>x \<in> set seen. \<forall>y \<in> set ?new. timestamp x < timestamp y"
  proof (intro ballI)
    fix x y
    assume x: "x \<in> set seen" and y: "y \<in> set ?new"
    from old(3) x have "\<not> newer_than mark x"
      by blast
    then obtain t where t: "mark = Some t" "timestamp x \<le> t"
      by (cases mark) (auto simp: newer_than_def)
    from new y have "newer_than mark y"
      by blast
    with t show "timestamp x < timestamp y"
      by (simp add: newer_than_def)
  qed
  have top: "?new \<noteq> [] \<Longrightarrow> \<forall>y \<in> set ?new. timestamp y \<le> timestamp (last ?new)"
  proof
    fix y
    assume ne: "?new \<noteq> []" and y: "y \<in> set ?new"
    have "sorted (map timestamp ?new)"
      by (rule new_events_props)
    then have "\<forall>t \<in> set (butlast (map timestamp ?new)). t \<le> last (map timestamp ?new)"
      using ne
      by (metis append_butlast_last_id map_is_Nil_conv sorted_append list.set_intros(1))
    moreover from y have "timestamp y \<in> set (map timestamp ?new)"
      by simp
    ultimately show "timestamp y \<le> timestamp (last ?new)"
      using ne
      by (metis append_butlast_last_id last_map map_is_Nil_conv order_refl rotate1.simps(2)
                set_ConsD set_rotate1)
  qed
  have d: "distinct seen'"
    using old(1) cross by (auto simp: seen' new_events_props(1))
  have s: "sorted (map timestamp seen')"
    using old(2) cross new_events_props(2) [of mark evs]
    by (auto simp: seen' sorted_append less_imp_le)
  have m: "\<forall>e \<in> set seen'. \<not> newer_than mark' e"
  proof (cases "?new = []")
    case True
    with old(3) show ?thesis
      by (simp add: seen' mark')
  next
    case False
    from top [OF False] cross False
    have "\<forall>e \<in> set seen \<union> set ?new. timestamp e \<le> timestamp (last ?new)"
      by (metis Un_iff last_in_set less_imp_le)
    then have "\<forall>e \<in> set seen'. \<not> timestamp (last ?new) < timestamp e"
      by (simp add: seen' not_less ball_Un)
    with False show ?thesis
      by (simp add: mark' newer_than_def)
  qed
  from d s m show ?thesis
    by (simp add: in_order_def)
qed

lemma poll_in_order:
  "in_order mark seen \<Longrightarrow> in_order None [] \<Longrightarrow>
     distinct (fst (snd (poll retries reason k mark seen rs)))
   \<and> sorted (map timestamp (fst (snd (poll retries reason k mark seen rs))))"
proof (induction retries reason k mark seen rs rule: poll.induct)
  case (1 retries reason k mark seen)
  then show ?case
    by (simp add: in_order_def)
next
  case (2 retries reason k mark seen e rs)
  then show ?case
    by (simp add: in_order_def)
next
  case (3 retries reason k mark seen st evs rs)
  obtain m s where d: "deliver (mark, seen) (new_events mark evs) = (m, s)"
    by (cases "deliver (mark, seen) (new_events mark evs)")
  from in_order_deliver [OF "3.prems"(1) d] have io: "in_order m s" .
  show ?case
  proof (cases "is_terminal st")
    case True
    with d io show ?thesis
      by (simp add: in_order_def)
  next
    case False
    then have "\<not> is_success st"
      using is_success_terminal by blast
    with False d "3.IH" [OF d [symmetric] refl this False io "3.prems"(2)] show ?thesis
      by simp
  qed
qed

text \<open>
  C7. Whatever the responses are, with batches that overlap, repeat events or list them
  newest first, and with query errors between them, the events the poller delivers to the
  observer are distinct, so none is delivered twice, and their timestamps never
  decrease, so none is delivered after a newer one.
\<close>

theorem PollUntilCreated_delivers_once_in_order:
  "distinct (fst (snd (PollUntilCreated retries reason responses)))
   \<and> sorted (map timestamp (fst (snd (PollUntilCreated retries reason responses))))"
proof -
  have "in_order None []"
    by (simp add: in_order_def)
  from poll_in_order [OF this this] show ?thesis
    by (simp add: PollUntilCreated_def)
qed

end
